theory Spec2Isabelle
  imports Main "HOL-Library.Word"
begin

unbundle bit_operations_syntax

section \<open>Addresses, prefixes and route events\<close>

text \<open>
  A VNI is a \<open>uint32\<close>. A \<open>netip.Addr\<close> is the zero value (not valid), an IPv4 address
  or an IPv6 address; zones are left out. A \<open>netip.Prefix\<close> is an address and a length;
  \<open>Bits\<close> is an \<open>int\<close>, as \<open>Prefix.Bits\<close> returns it: \<open>-1\<close> for a prefix that is not valid.
\<close>

type_synonym vni = "32 word"

datatype addr = ZeroAddr | IPv4 "32 word" | IPv6 "128 word"

record netip_Prefix =
  Addr :: addr
  Bits :: int

text \<open>
  \<open>netip.Prefix.Contains\<close> of the standard library: the families must agree, the length
  must be valid for the family, and the leading \<open>Bits\<close> bits must be equal.
\<close>

fun Contains :: "netip_Prefix \<Rightarrow> addr \<Rightarrow> bool" where
  "Contains p ZeroAddr = False"
| "Contains p (IPv4 a) =
     (case Addr p of
        IPv4 n \<Rightarrow> 0 \<le> Bits p \<and> Bits p \<le> 32 \<and> drop_bit (nat (32 - Bits p)) (a XOR n) = 0
      | _ \<Rightarrow> False)"
| "Contains p (IPv6 a) =
     (case Addr p of
        IPv6 n \<Rightarrow> 0 \<le> Bits p \<and> Bits p \<le> 128 \<and> drop_bit (nat (128 - Bits p)) (a XOR n) = 0
      | _ \<Rightarrow> False)"

text \<open>The route event of the propagation protocol: \<open>mb.Destination\<close> and \<open>mb.NextHop\<close>.\<close>

datatype IPVersion = IPV4 | IPV6

record Destination =
  IPVersion :: IPVersion
  Prefix :: netip_Prefix

datatype NextHopType = STANDARD | NAT | LOADBALANCER_TARGET

record NextHop =
  TargetAddress :: addr
  TargetVNI :: vni
  Type :: NextHopType
  NATPortRangeFrom :: "16 word"
  NATPortRangeTo :: "16 word"

text \<open>
  The preferred network is a \<open>*net.IPNet\<close> of the standard library, asked with
  \<open>Contains(net.ParseIP(addr.String()))\<close>. For an IPv4 network with number \<open>n\<close> and mask
  \<open>m\<close>: \<open>Contains\<close> first unmaps the address with \<open>To4\<close>, so an IPv4 address and an
  IPv4-mapped IPv6 address (\<open>::ffff:a.b.c.d\<close>) are compared under the mask; any other IPv6
  address has another length than the network number and is outside; the zero address
  prints as text that does not parse, and the nil address is outside.
\<close>

fun IPNet_Contains :: "32 word \<Rightarrow> 32 word \<Rightarrow> addr \<Rightarrow> bool" where
  "IPNet_Contains n m ZeroAddr = False"
| "IPNet_Contains n m (IPv4 a) = (a AND m = n AND m)"
| "IPNet_Contains n m (IPv6 a) =
     (drop_bit 32 a = 0xFFFF \<and> (ucast a :: 32 word) AND m = n AND m)"

section \<open>The dataplane client seen from the realization engine\<close>

text \<open>
  A status code is a 32-bit number, \<open>0\<close> meaning success. The named codes of the imported
  package \<open>dpdkerrors\<close> are constants whose values are not part of this repository: they
  are taken as a parameter.
\<close>

type_synonym code = "32 word"

record dpdkerrors =
  NOT_FOUND :: code
  ALREADY_EXISTS :: code
  NO_VNI :: code
  ROUTE_EXISTS :: code
  ROUTE_NOT_FOUND :: code
  NO_BACKIP :: code
  NO_LB :: code

text \<open>
  Errors are values. \<open>Wrapped ctx e\<close> is \<open>fmt.Errorf(ctx + ": %w", e)\<close>;
  \<open>Joined es\<close> is \<open>errors.New(strings.Join(errStrs, "\n"))\<close> where \<open>errStrs\<close> holds the
  texts of \<open>es\<close> in order.
\<close>

datatype error =
    RpcError string
  | StatusError code string
  | ParseError string
  | PrefixLengthError nat addr
  | IPv4OnlyError
  | NoLoadBalancer vni addr
  | ListRoutesError vni error
  | Wrapped string error
  | Joined "error list"

text \<open>A route as the dataplane lists it (\<open>dpdk.Route\<close>: \<open>RouteMeta\<close> and \<open>RouteSpec\<close>).\<close>

record dpdk_Route =
  route_VNI :: vni
  route_Prefix :: netip_Prefix
  route_NextHop_VNI :: vni
  route_NextHop_IP :: addr

text \<open>
  The calls the engine issues, each with the fields of its request:
  \<open>CreateLoadBalancerTarget LoadbalancerID TargetIP\<close>,
  \<open>CreateNeighborNat NatIP Vni MinPort MaxPort UnderlayRoute\<close>,
  \<open>CreateRoute VNI Prefix NextHop.VNI NextHop.IP\<close>,
  \<open>DeleteLoadBalancerTarget LoadbalancerID TargetIP\<close>,
  \<open>DeleteNeighborNat NatIP Vni MinPort MaxPort UnderlayRoute\<close>,
  \<open>DeleteRoute VNI Prefix\<close> and \<open>ListRoutes VNI\<close>.
\<close>

datatype dp_call =
    CreateLoadBalancerTarget string addr
  | CreateNeighborNat addr vni "32 word" "32 word" addr
  | CreateRoute vni netip_Prefix vni addr
  | DeleteLoadBalancerTarget string addr
  | DeleteNeighborNat addr vni "32 word" "32 word" addr
  | DeleteRoute vni netip_Prefix
  | ListRoutes vni

text \<open>
  What comes back from one RPC: a transport failure, or a response with its status code,
  its message and (for a listing) its items.
\<close>

datatype reply = Failed string | Response code string "dpdk_Route list"

text \<open>
  The dataplane service is a state transformer answering each call. The world threaded
  through the engine is the service's state and the calls issued so far, in order.
\<close>

type_synonym 's backend = "dp_call \<Rightarrow> 's \<Rightarrow> reply \<times> 's"

record 's world =
  store :: 's
  calls :: "dp_call list"

text \<open>
  The client library's error policy (\<open>dpdkerrors.Ignore\<close>): a transport failure is always
  an error; a non-zero status is an error unless its code is in the ignore list.
\<close>

fun GetError :: "code list \<Rightarrow> reply \<Rightarrow> error option" where
  "GetError ignored (Failed m) = Some (RpcError m)"
| "GetError ignored (Response c m items) =
     (if c = 0 then None
      else if c \<in> set ignored then None
      else Some (StatusError c m))"

definition rpc :: "'s backend \<Rightarrow> dp_call \<Rightarrow> 's world \<Rightarrow> reply \<times> 's world" where
  "rpc be c w =
     (case be c (store w) of
        (r, s') \<Rightarrow> (r, \<lparr>store = s', calls = calls w @ [c]\<rparr>))"

definition dpdk_do :: "'s backend \<Rightarrow> dp_call \<Rightarrow> code list \<Rightarrow> 's world \<Rightarrow> error option \<times> 's world" where
  "dpdk_do be c ignored w = (case rpc be c w of (r, w') \<Rightarrow> (GetError ignored r, w'))"

definition dpdk_ListRoutes :: "'s backend \<Rightarrow> vni \<Rightarrow> 's world \<Rightarrow> (error + dpdk_Route list) \<times> 's world" where
  "dpdk_ListRoutes be v w =
     (case rpc be (ListRoutes v) w of
        (Failed m, w') \<Rightarrow> (Inl (RpcError m), w')
      | (Response c m items, w') \<Rightarrow>
          (if c \<noteq> 0 then (Inl (StatusError c m), w') else (Inr items, w')))"

section \<open>The realization engine\<close>

text \<open>
  \<open>ClientOptions\<close>: the preferred network is a \<open>*net.IPNet\<close>, represented by its membership
  test on the next-hop address (\<open>PreferredNetwork.Contains(net.ParseIP(addr.String()))\<close>);
  \<open>None\<close> is the nil pointer.
\<close>

record ClientOptions =
  IPv4Only :: bool
  PreferredNetwork :: "(addr \<Rightarrow> bool) option"

text \<open>
  The topology cache is read only. \<open>GetPeerVnis\<close> gives the peer set (as the list its
  iteration yields) and whether the VNI is known; \<open>GetPeeredPrefixes\<close> gives the
  per-peer allow-lists and whether any are known; \<open>GetLoadBalancerServer\<close> resolves
  (VNI, address) to a load-balancer id.
\<close>

record MetalnetCache =
  GetPeerVnis :: "vni \<Rightarrow> vni list \<times> bool"
  GetPeeredPrefixes :: "vni \<Rightarrow> (vni \<rightharpoonup> netip_Prefix list) \<times> bool"
  GetLoadBalancerServer :: "vni \<Rightarrow> addr \<Rightarrow> string option"

record 's MetalnetClient =
  dpdk :: "'s backend"
  config :: ClientOptions
  metalnetCache :: MetalnetCache
  errs :: dpdkerrors

definition wrap :: "string \<Rightarrow> error option \<times> 'w \<Rightarrow> error option \<times> 'w" where
  "wrap ctx r = (case r of (None, w) \<Rightarrow> (None, w) | (Some e, w) \<Rightarrow> (Some (Wrapped ctx e), w))"

definition addLocalRoute ::
  "'s MetalnetClient \<Rightarrow> vni \<Rightarrow> vni \<Rightarrow> Destination \<Rightarrow> NextHop \<Rightarrow> 's world \<Rightarrow> error option \<times> 's world" where
  "addLocalRoute c destVni v dest hop w =
     (if IPv4Only (config c) \<and> IPVersion dest \<noteq> IPV4 then (Some IPv4OnlyError, w)
      else if Type hop = LOADBALANCER_TARGET then
        (case GetLoadBalancerServer (metalnetCache c) v (Addr (Prefix dest)) of
           None \<Rightarrow> (Some (NoLoadBalancer v (Addr (Prefix dest))), w)
         | Some uid \<Rightarrow>
             (if (case PreferredNetwork (config c) of
                    None \<Rightarrow> False
                  | Some net \<Rightarrow> \<not> net (TargetAddress hop))
              then (None, w)
              else wrap ''error creating lb target''
                     (dpdk_do (dpdk c) (CreateLoadBalancerTarget uid (TargetAddress hop))
                        [ALREADY_EXISTS (errs c)] w)))
      else if Type hop = NAT then
        wrap ''error nat route''
          (dpdk_do (dpdk c)
             (CreateNeighborNat (Addr (Prefix dest)) v
                (ucast (NATPortRangeFrom hop)) (ucast (NATPortRangeTo hop)) (TargetAddress hop))
             [ALREADY_EXISTS (errs c)] w)
      else
        wrap ''error creating route''
          (dpdk_do (dpdk c) (CreateRoute v (Prefix dest) destVni (TargetAddress hop))
             [ROUTE_EXISTS (errs c)] w))"

definition removeLocalRoute ::
  "'s MetalnetClient \<Rightarrow> vni \<Rightarrow> vni \<Rightarrow> Destination \<Rightarrow> NextHop \<Rightarrow> 's world \<Rightarrow> error option \<times> 's world" where
  "removeLocalRoute c destVni v dest hop w =
     (if IPv4Only (config c) \<and> IPVersion dest \<noteq> IPV4 then (Some IPv4OnlyError, w)
      else if Type hop = LOADBALANCER_TARGET then
        (case GetLoadBalancerServer (metalnetCache c) v (Addr (Prefix dest)) of
           None \<Rightarrow> (Some (NoLoadBalancer v (Addr (Prefix dest))), w)
         | Some uid \<Rightarrow>
             wrap ''error deleting lb target''
               (dpdk_do (dpdk c) (DeleteLoadBalancerTarget uid (TargetAddress hop))
                  [NOT_FOUND (errs c), NO_BACKIP (errs c), NO_LB (errs c)] w))
      else if Type hop = NAT then
        wrap ''error deleting nat route''
          (dpdk_do (dpdk c)
             (DeleteNeighborNat (Addr (Prefix dest)) v
                (ucast (NATPortRangeFrom hop)) (ucast (NATPortRangeTo hop)) (TargetAddress hop))
             [NOT_FOUND (errs c)] w)
      else
        wrap ''error deleting route''
          (dpdk_do (dpdk c) (DeleteRoute v (Prefix dest))
             [NO_VNI (errs c), ROUTE_NOT_FOUND (errs c)] w))"

text \<open>
  The inner loop of \<open>AddRoute\<close> over one peer's allow-list, leaving at the first prefix
  that contains the destination address.
\<close>

fun anyContains :: "netip_Prefix list \<Rightarrow> addr \<Rightarrow> bool" where
  "anyContains [] a = False"
| "anyContains (peeredPrefix # rest) a =
     (if Contains peeredPrefix a then True else anyContains rest a)"

text \<open>The flag \<open>addRoute\<close> computed for one peer in the body of the peer loop.\<close>

definition addRouteFlag ::
  "(vni \<rightharpoonup> netip_Prefix list) \<times> bool \<Rightarrow> vni \<Rightarrow> Destination \<Rightarrow> bool" where
  "addRouteFlag pp peeredVNI dest =
     (case pp of
        (peeredPrefixes, ok) \<Rightarrow>
          (if ok then
             (case peeredPrefixes peeredVNI of
                None \<Rightarrow> True
              | Some allowedPeeredPrefixes \<Rightarrow>
                  anyContains allowedPeeredPrefixes (Addr (Prefix dest)))
           else True))"

text \<open>The peer loop of \<open>AddRoute\<close>, with the error texts collected so far.\<close>

fun addPeers ::
  "'s MetalnetClient \<Rightarrow> vni \<Rightarrow> Destination \<Rightarrow> NextHop \<Rightarrow> (vni \<rightharpoonup> netip_Prefix list) \<times> bool \<Rightarrow>
   vni list \<Rightarrow> error list \<Rightarrow> 's world \<Rightarrow> error list \<times> 's world" where
  "addPeers c v dest hop pp [] errStrs w = (errStrs, w)"
| "addPeers c v dest hop pp (peeredVNI # rest) errStrs w =
     (if addRouteFlag pp peeredVNI dest then
        (case addLocalRoute c v peeredVNI dest hop w of
           (Some err, w') \<Rightarrow> addPeers c v dest hop pp rest (errStrs @ [err]) w'
         | (None, w') \<Rightarrow> addPeers c v dest hop pp rest errStrs w')
      else addPeers c v dest hop pp rest errStrs w)"

definition AddRoute ::
  "'s MetalnetClient \<Rightarrow> vni \<Rightarrow> Destination \<Rightarrow> NextHop \<Rightarrow> 's world \<Rightarrow> error option \<times> 's world" where
  "AddRoute c v dest hop w =
     (case addLocalRoute c v v dest hop w of
        (r, w1) \<Rightarrow>
          (case (if Type hop = STANDARD then
                   addPeers c v dest hop (GetPeeredPrefixes (metalnetCache c) v)
                     (fst (GetPeerVnis (metalnetCache c) v))
                     (case r of None \<Rightarrow> [] | Some err \<Rightarrow> [err]) w1
                 else ((case r of None \<Rightarrow> [] | Some err \<Rightarrow> [err]), w1)) of
             (errStrs, w2) \<Rightarrow>
               (if length errStrs > 0 then (Some (Joined errStrs), w2) else (None, w2))))"

text \<open>The peer loop of \<open>RemoveRoute\<close>: the kind is tested inside the loop.\<close>

fun removePeers ::
  "'s MetalnetClient \<Rightarrow> vni \<Rightarrow> Destination \<Rightarrow> NextHop \<Rightarrow> vni list \<Rightarrow> error list \<Rightarrow> 's world \<Rightarrow>
   error list \<times> 's world" where
  "removePeers c v dest hop [] errStrs w = (errStrs, w)"
| "removePeers c v dest hop (peeredVNI # rest) errStrs w =
     (if Type hop = STANDARD then
        (case removeLocalRoute c v peeredVNI dest hop w of
           (Some err, w') \<Rightarrow> removePeers c v dest hop rest (errStrs @ [err]) w'
         | (None, w') \<Rightarrow> removePeers c v dest hop rest errStrs w')
      else removePeers c v dest hop rest errStrs w)"

definition RemoveRoute ::
  "'s MetalnetClient \<Rightarrow> vni \<Rightarrow> Destination \<Rightarrow> NextHop \<Rightarrow> 's world \<Rightarrow> error option \<times> 's world" where
  "RemoveRoute c v dest hop w =
     (case removeLocalRoute c v v dest hop w of
        (r, w1) \<Rightarrow>
          (case removePeers c v dest hop (fst (GetPeerVnis (metalnetCache c) v))
                  (case r of None \<Rightarrow> [] | Some err \<Rightarrow> [err]) w1 of
             (errStrs, w2) \<Rightarrow>
               (if length errStrs > 0 then (Some (Joined errStrs), w2) else (None, w2))))"

text \<open>The loop of \<open>CleanupNotPeeredRoutes\<close> over the listed routes: it returns at the first
  deletion that fails.\<close>

fun cleanupLoop ::
  "'s MetalnetClient \<Rightarrow> vni \<Rightarrow> vni list \<times> bool \<Rightarrow> dpdk_Route list \<Rightarrow> 's world \<Rightarrow>
   error option \<times> 's world" where
  "cleanupLoop c v peers [] w = (None, w)"
| "cleanupLoop c v peers (route # rest) w =
     (if route_NextHop_VNI route \<noteq> v \<and> (snd peers \<and> \<not> (route_NextHop_VNI route \<in> set (fst peers)))
      then
        (case dpdk_do (dpdk c) (DeleteRoute v (route_Prefix route))
                [NO_VNI (errs c), ROUTE_NOT_FOUND (errs c)] w of
           (Some err, w') \<Rightarrow> (Some (Wrapped ''error deleting route'' err), w')
         | (None, w') \<Rightarrow> cleanupLoop c v peers rest w')
      else cleanupLoop c v peers rest w)"

definition CleanupNotPeeredRoutes ::
  "'s MetalnetClient \<Rightarrow> vni \<Rightarrow> 's world \<Rightarrow> error option \<times> 's world" where
  "CleanupNotPeeredRoutes c v w =
     (case dpdk_ListRoutes (dpdk c) v w of
        (Inl err, w') \<Rightarrow> (Some (ListRoutesError v err), w')
      | (Inr routes, w') \<Rightarrow> cleanupLoop c v (GetPeerVnis (metalnetCache c) v) routes w')"

section \<open>The dataplane translation layer\<close>

text \<open>
  The layer of \<open>dpdk/client.go\<close>: one operation per entity and verb, each issuing one
  RPC of the generated client and mapping the response back.

  What the layer takes from outside the repository is a parameter: the standard
  library's \<open>netip.ParseAddr\<close> (\<open>None\<close> is a parse error), \<open>Addr.String\<close> and
  \<open>Prefix.String\<close>, and the numeric values of the protocol's enumerations.
\<close>

record lib =
  ParseAddr :: "string \<Rightarrow> addr option"
  Addr_String :: "addr \<Rightarrow> string"
  Prefix_String :: "netip_Prefix \<Rightarrow> string"
  IPVersion_IPv4 :: "32 word"
  IPVersion_IPv6 :: "32 word"
  InterfaceType_VirtualInterface :: "32 word"


text \<open>The layer's own objects, with the embedded metadata and status structs flattened.\<close>

record InterfaceSpec =
  spec_VNI :: "32 word"
  spec_Device :: string
  spec_PrimaryIPv4Address :: addr
  spec_PrimaryIPv6Address :: addr

record Interface =
  iface_UID :: string
  iface_Spec :: InterfaceSpec
  iface_Status_UnderlayRoute :: addr



record Route =
  Route_VNI :: "32 word"
  Route_Spec_Prefix :: netip_Prefix
  Route_Spec_NextHop_VNI :: "32 word"
  Route_Spec_NextHop_Address :: addr

text \<open>
  The messages of the protocol, with the fields the layer reads or writes. A
  \<open>proto_Status\<close> is a status as the layer reads it from a response: its code (\<open>0\<close> is
  success) and its message. Byte strings are strings.
\<close>

record proto_Status =
  status_Error :: code
  status_Message :: string

record proto_Interface =
  pb_InterfaceID :: string
  pb_Vni :: "32 word"
  pb_PciDpName :: string
  pb_PrimaryIPv4Address :: string
  pb_PrimaryIPv6Address :: string
  pb_UnderlayRoute :: string

record proto_IPConfig =
  cfg_IpVersion :: "32 word"
  cfg_PrimaryAddress :: string

record proto_Prefix =
  pfx_IpVersion :: "32 word"
  pfx_Address :: string
  pfx_PrefixLength :: "32 word"

record proto_Route =
  rt_IpVersion :: "32 word"
  rt_Weight :: "32 word"
  rt_Prefix :: proto_Prefix
  rt_NexthopVNI :: "32 word"
  rt_NexthopAddress :: string

record CreateInterfaceRequest =
  req_InterfaceType :: "32 word"
  req_InterfaceID :: string
  req_Vni :: "32 word"
  req_Ipv4Config :: "proto_IPConfig option"
  req_Ipv6Config :: "proto_IPConfig option"
  req_DeviceName :: string

record InterfaceVIPMsg =
  vipmsg_IpVersion :: "32 word"
  vipmsg_Address :: string

record InterfacePrefixMsg =
  pmsg_InterfaceID :: string
  pmsg_Prefix :: proto_Prefix

record VNIRouteMsg =
  rmsg_Vni :: "32 word"
  rmsg_Route :: proto_Route

record GetInterfaceResponse =
  gi_Status :: proto_Status
  gi_Interface :: proto_Interface

record IpAdditionResponse =
  ipa_Status :: proto_Status
  ipa_UnderlayRoute :: string

record InterfaceVIPIP =
  vipip_Status :: proto_Status
  vipip_Address :: string

text \<open>
  The generated RPC client, one function per RPC: \<open>Inl\<close> is a transport error (the
  \<open>err\<close> of the call), \<open>Inr\<close> the response.

  The response of \<open>ListInterfacePrefixes\<close> is declared outside the repository, and the
  layer calls nothing on it but \<open>GetPrefixes\<close>. Its type is the parameter \<open>'r\<close>, and the
  getter comes with the client; whether the message holds anything beside its prefixes
  is left open.
\<close>

record 'r DPDKonmetalClient =
  rpc_GetInterface :: "string \<Rightarrow> string + GetInterfaceResponse"
  rpc_CreateInterface :: "CreateInterfaceRequest \<Rightarrow> string + IpAdditionResponse"
  rpc_DeleteInterface :: "string \<Rightarrow> string + proto_Status"
  rpc_GetInterfaceVIP :: "string \<Rightarrow> string + InterfaceVIPIP"
  rpc_AddInterfaceVIP :: "InterfaceVIPMsg \<Rightarrow> string + IpAdditionResponse"
  rpc_DeleteInterfaceVIP :: "string \<Rightarrow> string + proto_Status"
  rpc_ListInterfacePrefixes :: "string \<Rightarrow> string + 'r"
  GetPrefixes :: "'r \<Rightarrow> proto_Prefix list"
  rpc_AddInterfacePrefix :: "InterfacePrefixMsg \<Rightarrow> string + IpAdditionResponse"
  rpc_DeleteInterfacePrefix :: "InterfacePrefixMsg \<Rightarrow> string + proto_Status"
  rpc_AddRoute :: "VNIRouteMsg \<Rightarrow> string + proto_Status"
  rpc_DeleteRoute :: "VNIRouteMsg \<Rightarrow> string + proto_Status"

text \<open>\<open>netip.ParseAddr\<close> with the error wrapped as the call sites do.\<close>

definition parse :: "lib \<Rightarrow> string \<Rightarrow> string \<Rightarrow> error + addr" where
  "parse L ctx s =
     (case ParseAddr L s of
        None \<Rightarrow> Inl (Wrapped ctx (ParseError s))
      | Some a \<Rightarrow> Inr a)"

text \<open>
  As in the source, the second parse reads \<open>GetPrimaryIPv4Address\<close> again: the field
  \<open>PrimaryIPv6Address\<close> of the response is not read.
\<close>

definition dpdkInterfaceToInterface :: "lib \<Rightarrow> proto_Interface \<Rightarrow> error + Interface" where
  "dpdkInterfaceToInterface L dpdkIface =
     (case parse L ''error parsing primary ipv4 address'' (pb_PrimaryIPv4Address dpdkIface) of
        Inl err \<Rightarrow> Inl err
      | Inr primaryIPv4Address \<Rightarrow>
     (case parse L ''error parsing primary ipv6 address'' (pb_PrimaryIPv4Address dpdkIface) of
        Inl err \<Rightarrow> Inl err
      | Inr primaryIPv6Address \<Rightarrow>
     (case parse L ''error parsing underlay route'' (pb_UnderlayRoute dpdkIface) of
        Inl err \<Rightarrow> Inl err
      | Inr underlayRoute \<Rightarrow>
          Inr \<lparr>iface_UID = pb_InterfaceID dpdkIface,
               iface_Spec =
                 \<lparr>spec_VNI = pb_Vni dpdkIface,
                  spec_Device = pb_PciDpName dpdkIface,
                  spec_PrimaryIPv4Address = primaryIPv4Address,
                  spec_PrimaryIPv6Address = primaryIPv6Address\<rparr>,
               iface_Status_UnderlayRoute = underlayRoute\<rparr>)))"

definition netipAddrToDPDKIPVersion :: "lib \<Rightarrow> addr \<Rightarrow> 32 word" where
  "netipAddrToDPDKIPVersion L a =
     (case a of IPv4 x \<Rightarrow> IPVersion_IPv4 L | IPv6 x \<Rightarrow> IPVersion_IPv6 L | ZeroAddr \<Rightarrow> 0)"


definition statusError :: "proto_Status \<Rightarrow> error" where
  "statusError st = StatusError (status_Error st) (status_Message st)"

definition GetInterface :: "lib \<Rightarrow> 'r DPDKonmetalClient \<Rightarrow> string \<Rightarrow> error + Interface" where
  "GetInterface L c uid =
     (case rpc_GetInterface c uid of
        Inl err \<Rightarrow> Inl (RpcError err)
      | Inr res \<Rightarrow>
          (if status_Error (gi_Status res) \<noteq> 0 then Inl (statusError (gi_Status res))
           else dpdkInterfaceToInterface L (gi_Interface res)))"
















text \<open>
  The request \<open>CreateRoute\<close> and \<open>DeleteRoute\<close> of this layer both build from a route
  (named \<open>CreateRouteOp\<close> and \<open>DeleteRouteOp\<close> here, apart from the calls of the engine).
\<close>

definition routeMsg :: "lib \<Rightarrow> Route \<Rightarrow> VNIRouteMsg" where
  "routeMsg L route =
     \<lparr>rmsg_Vni = Route_VNI route,
      rmsg_Route =
        \<lparr>rt_IpVersion = netipAddrToDPDKIPVersion L (Route_Spec_NextHop_Address route),
         rt_Weight = 100,
         rt_Prefix =
           \<lparr>pfx_IpVersion = netipAddrToDPDKIPVersion L (Addr (Route_Spec_Prefix route)),
            pfx_Address = Prefix_String L (Route_Spec_Prefix route),
            pfx_PrefixLength = word_of_int (Bits (Route_Spec_Prefix route))\<rparr>,
         rt_NexthopVNI = Route_Spec_NextHop_VNI route,
         rt_NexthopAddress = Addr_String L (Route_Spec_NextHop_Address route)\<rparr>\<rparr>"


definition DeleteRouteOp :: "lib \<Rightarrow> 'r DPDKonmetalClient \<Rightarrow> Route \<Rightarrow> error option" where
  "DeleteRouteOp L c route =
     (case rpc_DeleteRoute c (routeMsg L route) of
        Inl err \<Rightarrow> Some (RpcError err)
      | Inr res \<Rightarrow> (if status_Error res \<noteq> 0 then Some (statusError res) else None))"

section \<open>Running a sequence of realization attempts\<close>

text \<open>
  The reading of the fan-out used in the statements below: \<open>attempts f ts w\<close> runs the
  per-network realization \<open>f\<close> for every target of \<open>ts\<close> in order, whatever the earlier
  ones returned, and keeps every outcome; \<open>aggregate\<close> joins the failures.
\<close>

fun attempts :: "(vni \<Rightarrow> 'w \<Rightarrow> error option \<times> 'w) \<Rightarrow> vni list \<Rightarrow> 'w \<Rightarrow> error option list \<times> 'w" where
  "attempts f [] w = ([], w)"
| "attempts f (t # ts) w =
     (case f t w of (r, w1) \<Rightarrow> (case attempts f ts w1 of (rs, w2) \<Rightarrow> (r # rs, w2)))"

fun failures :: "error option list \<Rightarrow> error list" where
  "failures [] = []"
| "failures (None # rs) = failures rs"
| "failures (Some e # rs) = e # failures rs"

definition aggregate :: "error option list \<Rightarrow> error option" where
  "aggregate rs = (if failures rs = [] then None else Some (Joined (failures rs)))"

section \<open>A reference dataplane and the inputs of the examples\<close>

text \<open>
  The dataplane service is outside the repository. For the examples and for the
  round trip, a reference service keeps one route per (VNI, prefix): creating an
  existing key answers \<open>ROUTE_EXISTS\<close>, deleting a missing one answers
  \<open>ROUTE_NOT_FOUND\<close>; load-balancer targets and NAT entries are accepted and not kept.
  \<open>faulty_dp\<close> is the same service with a transport failure on the calls \<open>broken\<close> selects.
\<close>

fun table_dp :: "dpdkerrors \<Rightarrow> dpdk_Route list backend" where
  "table_dp E (CreateRoute v p nv na) t =
     (if \<exists>r\<in>set t. route_VNI r = v \<and> route_Prefix r = p
      then (Response (ROUTE_EXISTS E) ''route exists'' [], t)
      else (Response 0 [] [],
            t @ [\<lparr>route_VNI = v, route_Prefix = p, route_NextHop_VNI = nv, route_NextHop_IP = na\<rparr>]))"
| "table_dp E (DeleteRoute v p) t =
     (if \<exists>r\<in>set t. route_VNI r = v \<and> route_Prefix r = p
      then (Response 0 [] [], filter (\<lambda>r. \<not> (route_VNI r = v \<and> route_Prefix r = p)) t)
      else (Response (ROUTE_NOT_FOUND E) ''route not found'' [], t))"
| "table_dp E (ListRoutes v) t = (Response 0 [] (filter (\<lambda>r. route_VNI r = v) t), t)"
| "table_dp E other t = (Response 0 [] [], t)"

definition faulty_dp :: "dpdkerrors \<Rightarrow> (dp_call \<Rightarrow> bool) \<Rightarrow> dpdk_Route list backend" where
  "faulty_dp E broken call t = (if broken call then (Failed ''unavailable'', t) else table_dp E call t)"

text \<open>Code values for the examples; the theorems hold for every choice.\<close>

definition example_errs :: dpdkerrors where
  "example_errs =
     \<lparr>NOT_FOUND = 201, ALREADY_EXISTS = 202, NO_VNI = 206, ROUTE_EXISTS = 301,
      ROUTE_NOT_FOUND = 302, NO_BACKIP = 421, NO_LB = 422\<rparr>"

text \<open>
  The topology of the specification's examples: VNI 100 is peered with VNI 200 (no
  allow-list) and with VNI 300 (allow-list 10.0.0.0/24); the address 10.0.0.9 of VNI 100
  is a registered load balancer.
\<close>

definition example_cache :: MetalnetCache where
  "example_cache =
     \<lparr>GetPeerVnis = (\<lambda>v. if v = 100 then ([200, 300], True) else ([], False)),
      GetPeeredPrefixes =
        (\<lambda>v. if v = 100
              then ([300 \<mapsto> [\<lparr>Addr = IPv4 0x0A000000, Bits = 24\<rparr>]], True)
              else (Map.empty, False)),
      GetLoadBalancerServer =
        (\<lambda>v a. if v = 100 \<and> a = IPv4 0x0A000009 then Some ''lb-1'' else None)\<rparr>"

definition example_client :: "dpdk_Route list MetalnetClient" where
  "example_client =
     \<lparr>dpdk = table_dp example_errs,
      config = \<lparr>IPv4Only = False, PreferredNetwork = None\<rparr>,
      metalnetCache = example_cache,
      errs = example_errs\<rparr>"

definition empty_world :: "dpdk_Route list world" where
  "empty_world = \<lparr>store = [], calls = []\<rparr>"

definition prefix_10_0_0_5 :: netip_Prefix where
  "prefix_10_0_0_5 = \<lparr>Addr = IPv4 0x0A000005, Bits = 32\<rparr>"

definition prefix_192_168_1_1 :: netip_Prefix where
  "prefix_192_168_1_1 = \<lparr>Addr = IPv4 0xC0A80101, Bits = 32\<rparr>"

definition dest_10_0_0_5 :: Destination where
  "dest_10_0_0_5 = \<lparr>IPVersion = IPV4, Prefix = prefix_10_0_0_5\<rparr>"

definition dest_192_168_1_1 :: Destination where
  "dest_192_168_1_1 = \<lparr>IPVersion = IPV4, Prefix = prefix_192_168_1_1\<rparr>"

definition underlay_1 :: addr where
  "underlay_1 = IPv6 0xFD000000000000000000000000000001"

definition underlay_2 :: addr where
  "underlay_2 = IPv6 0xFD000000000000000000000000000002"

definition standardHop :: NextHop where
  "standardHop =
     \<lparr>TargetAddress = underlay_1, TargetVNI = 100, Type = STANDARD,
      NATPortRangeFrom = 0, NATPortRangeTo = 0\<rparr>"

text \<open>Further inputs of the examples: a load-balancer-target route, a second Standard
  next-hop, a client with the preferred network 10.0.0.0/8 and a client whose dataplane
  fails every \<open>CreateRoute\<close> into VNI 200.\<close>

definition prefix_10_0_0_9 :: netip_Prefix where
  "prefix_10_0_0_9 = \<lparr>Addr = IPv4 0x0A000009, Bits = 32\<rparr>"

definition dest_10_0_0_9 :: Destination where
  "dest_10_0_0_9 = \<lparr>IPVersion = IPV4, Prefix = prefix_10_0_0_9\<rparr>"

definition lbHop :: NextHop where
  "lbHop =
     \<lparr>TargetAddress = underlay_2, TargetVNI = 0, Type = LOADBALANCER_TARGET,
      NATPortRangeFrom = 0, NATPortRangeTo = 0\<rparr>"

definition otherStandardHop :: NextHop where
  "otherStandardHop =
     \<lparr>TargetAddress = underlay_2, TargetVNI = 200, Type = STANDARD,
      NATPortRangeFrom = 0, NATPortRangeTo = 0\<rparr>"

definition preferred_client :: "dpdk_Route list MetalnetClient" where
  "preferred_client =
     example_client\<lparr>config :=
       \<lparr>IPv4Only = False,
        PreferredNetwork = Some (IPNet_Contains 0x0A000000 0xFF000000)\<rparr>\<rparr>"

definition is_create_in_200 :: "dp_call \<Rightarrow> bool" where
  "is_create_in_200 call = (case call of CreateRoute v p nv na \<Rightarrow> v = 200 | _ \<Rightarrow> False)"

definition faulty_client :: "dpdk_Route list MetalnetClient" where
  "faulty_client = example_client\<lparr>dpdk := faulty_dp example_errs is_create_in_200\<rparr>"

text \<open>Inputs of the cleanup examples: routes of VNI 100 named by the third octet of their
  /24 prefix and their next-hop VNI, a cache that peers VNI 100 with VNI 200 only, a cache
  with no peer set at all, and a dataplane that fails the deletion of one prefix.\<close>

definition is_delete_of :: "netip_Prefix \<Rightarrow> dp_call \<Rightarrow> bool" where
  "is_delete_of p call = (case call of DeleteRoute v q \<Rightarrow> q = p | _ \<Rightarrow> False)"

definition prefix_net :: "32 word \<Rightarrow> netip_Prefix" where
  "prefix_net a = \<lparr>Addr = IPv4 a, Bits = 24\<rparr>"

definition route_via :: "32 word \<Rightarrow> vni \<Rightarrow> dpdk_Route" where
  "route_via a nh =
     \<lparr>route_VNI = 100, route_Prefix = prefix_net a, route_NextHop_VNI = nh,
      route_NextHop_IP = underlay_1\<rparr>"

definition cleanup_cache :: MetalnetCache where
  "cleanup_cache =
     \<lparr>GetPeerVnis = (\<lambda>v. if v = 100 then ([200], True) else ([], False)),
      GetPeeredPrefixes = (\<lambda>v. (Map.empty, False)),
      GetLoadBalancerServer = (\<lambda>v a. None)\<rparr>"

definition cleanup_client :: "dpdk_Route list MetalnetClient" where
  "cleanup_client = example_client\<lparr>metalnetCache := cleanup_cache\<rparr>"

definition unpeered_cache :: MetalnetCache where
  "unpeered_cache =
     \<lparr>GetPeerVnis = (\<lambda>v. ([], False)),
      GetPeeredPrefixes = (\<lambda>v. (Map.empty, False)),
      GetLoadBalancerServer = (\<lambda>v a. None)\<rparr>"

definition unpeered_client :: "dpdk_Route list MetalnetClient" where
  "unpeered_client = example_client\<lparr>metalnetCache := unpeered_cache\<rparr>"

definition stuck_client :: "dpdk_Route list MetalnetClient" where
  "stuck_client =
     cleanup_client\<lparr>dpdk := faulty_dp example_errs (is_delete_of (prefix_net 0x0A000200))\<rparr>"

definition installed_world :: "dpdk_Route list world" where
  "installed_world =
     \<lparr>store = [route_via 0x0A000100 100, route_via 0x0A000200 200, route_via 0x0A000400 400],
      calls = []\<rparr>"

definition stale_world :: "dpdk_Route list world" where
  "stale_world =
     \<lparr>store = [route_via 0x0A000100 400, route_via 0x0A000200 500, route_via 0x0A000400 600],
      calls = []\<rparr>"

text \<open>A dataplane in which the route of the example is installed in VNI 100 already.\<close>

definition preinstalled_world :: "dpdk_Route list world" where
  "preinstalled_world =
     \<lparr>store =
        [\<lparr>route_VNI = 100, route_Prefix = prefix_10_0_0_5, route_NextHop_VNI = 100,
          route_NextHop_IP = underlay_1\<rparr>],
      calls = []\<rparr>"

text \<open>
  For the examples: a library that knows the few addresses they use, a client whose
  every RPC fails in transport, and variants of it that answer one RPC. The listing
  response of these clients is the list of prefixes itself.
\<close>

definition example_lib :: lib where
  "example_lib =
     \<lparr>ParseAddr =
        (\<lambda>s. if s = ''10.0.0.1'' then Some (IPv4 0x0A000001)
              else if s = ''2001:db8::1'' then Some (IPv6 0x20010DB8000000000000000000000001)
              else if s = ''fd00::1'' then Some underlay_1
              else None),
      Addr_String =
        (\<lambda>a. if a = IPv4 0x0A000001 then ''10.0.0.1''
              else if a = underlay_1 then ''fd00::1''
              else if a = underlay_2 then ''fd00::2''
              else ''invalid IP''),
      Prefix_String = (\<lambda>p. if p = prefix_10_0_0_5 then ''10.0.0.5/32'' else ''invalid Prefix''),
      IPVersion_IPv4 = 0,
      IPVersion_IPv6 = 1,
      InterfaceType_VirtualInterface = 0\<rparr>"

definition silent_stub :: "proto_Prefix list DPDKonmetalClient" where
  "silent_stub =
     \<lparr>rpc_GetInterface = (\<lambda>uid. Inl ''unavailable''),
      rpc_CreateInterface = (\<lambda>req. Inl ''unavailable''),
      rpc_DeleteInterface = (\<lambda>uid. Inl ''unavailable''),
      rpc_GetInterfaceVIP = (\<lambda>uid. Inl ''unavailable''),
      rpc_AddInterfaceVIP = (\<lambda>req. Inl ''unavailable''),
      rpc_DeleteInterfaceVIP = (\<lambda>uid. Inl ''unavailable''),
      rpc_ListInterfacePrefixes = (\<lambda>uid. Inl ''unavailable''),
      GetPrefixes = (\<lambda>res. res),
      rpc_AddInterfacePrefix = (\<lambda>req. Inl ''unavailable''),
      rpc_DeleteInterfacePrefix = (\<lambda>req. Inl ''unavailable''),
      rpc_AddRoute = (\<lambda>req. Inl ''unavailable''),
      rpc_DeleteRoute = (\<lambda>req. Inl ''unavailable'')\<rparr>"

definition dual_stack_stub :: "proto_Prefix list DPDKonmetalClient" where
  "dual_stack_stub =
     silent_stub\<lparr>rpc_GetInterface :=
       (\<lambda>uid. Inr \<lparr>gi_Status = \<lparr>status_Error = 0, status_Message = []\<rparr>,
                   gi_Interface =
                     \<lparr>pb_InterfaceID = uid, pb_Vni = 100, pb_PciDpName = ''0000:01:00.0_representor_vf1'',
                      pb_PrimaryIPv4Address = ''10.0.0.1'',
                      pb_PrimaryIPv6Address = ''2001:db8::1'',
                      pb_UnderlayRoute = ''fd00::1''\<rparr>\<rparr>)\<rparr>"

definition example_route :: Route where
  "example_route =
     \<lparr>Route_VNI = 100, Route_Spec_Prefix = prefix_10_0_0_5, Route_Spec_NextHop_VNI = 200,
      Route_Spec_NextHop_Address = underlay_2\<rparr>"











section \<open>Basic facts\<close>

lemma failures_append: "failures (xs @ ys) = failures xs @ failures ys"
  by (induction xs rule: failures.induct) auto

lemma anyContains_iff: "anyContains ps a = (\<exists>p\<in>set ps. Contains p a)"
  by (induction ps) auto

lemma addRouteFlag_iff:
  "addRouteFlag pp peer dest =
     (case (if snd pp then fst pp peer else None) of
        None \<Rightarrow> True
      | Some ps \<Rightarrow> \<exists>p\<in>set ps. Contains p (Addr (Prefix dest)))"
  by (cases pp) (simp add: addRouteFlag_def anyContains_iff split: option.splits)

lemma rpc_calls: "calls (snd (rpc be c w)) = calls w @ [c]"
  by (simp add: rpc_def split: prod.splits)

lemma rpc_store: "store (snd (rpc be c w)) = snd (be c (store w))"
  by (simp add: rpc_def split: prod.splits)

lemma dpdk_do_calls: "calls (snd (dpdk_do be c ign w)) = calls w @ [c]"
proof (cases "rpc be c w")
  case (Pair r w')
  with rpc_calls[of be c w] show ?thesis by (simp add: dpdk_do_def)
qed

lemma dpdk_do_store: "store (snd (dpdk_do be c ign w)) = snd (be c (store w))"
proof (cases "rpc be c w")
  case (Pair r w')
  with rpc_store[of be c w] show ?thesis by (simp add: dpdk_do_def)
qed

lemma fst_dpdk_do: "fst (dpdk_do be c ign w) = GetError ign (fst (be c (store w)))"
  by (simp add: dpdk_do_def rpc_def split: prod.splits)

lemma snd_wrap: "snd (wrap ctx r) = snd r"
  by (simp add: wrap_def split: prod.splits option.splits)

lemma snd_collect: "snd (case x of (rs, w') \<Rightarrow> (h rs, w')) = snd x"
  by (cases x) simp

lemma concat_map_if: "concat (map (\<lambda>t. if b then [] else [h t]) ts) = (if b then [] else map h ts)"
  by (induction ts) auto

section \<open>The loops as sequences of attempts\<close>

lemma addPeers_attempts:
  "addPeers c v dest hop pp peers errStrs w =
     (case attempts (\<lambda>t. addLocalRoute c v t dest hop) (filter (\<lambda>p. addRouteFlag pp p dest) peers) w of
        (rs, w') \<Rightarrow> (errStrs @ failures rs, w'))"
  by (induction peers arbitrary: errStrs w) (auto split: prod.splits option.splits)

lemma removePeers_attempts:
  "removePeers c v dest hop peers errStrs w =
     (case attempts (\<lambda>t. removeLocalRoute c v t dest hop) (if Type hop = STANDARD then peers else []) w of
        (rs, w') \<Rightarrow> (errStrs @ failures rs, w'))"
  by (induction peers arbitrary: errStrs w) (auto split: prod.splits option.splits)

lemma AddRoute_attempts:
  "AddRoute c v dest hop w =
     (case attempts (\<lambda>t. addLocalRoute c v t dest hop)
             (v # (if Type hop = STANDARD
                   then filter (\<lambda>p. addRouteFlag (GetPeeredPrefixes (metalnetCache c) v) p dest)
                          (fst (GetPeerVnis (metalnetCache c) v))
                   else [])) w of
        (rs, w') \<Rightarrow> (aggregate rs, w'))"
  by (auto simp: AddRoute_def addPeers_attempts aggregate_def split: prod.splits option.splits)

lemma RemoveRoute_attempts:
  "RemoveRoute c v dest hop w =
     (case attempts (\<lambda>t. removeLocalRoute c v t dest hop)
             (v # (if Type hop = STANDARD then fst (GetPeerVnis (metalnetCache c) v) else [])) w of
        (rs, w') \<Rightarrow> (aggregate rs, w'))"
  by (auto simp: RemoveRoute_def removePeers_attempts aggregate_def split: prod.splits option.splits)

lemma attempts_calls:
  assumes "\<And>t w. calls (snd (f t w)) = calls w @ g t"
  shows "calls (snd (attempts f ts w)) = calls w @ concat (map g ts)"
proof (induction ts arbitrary: w)
  case Nil
  show ?case by simp
next
  case (Cons t ts)
  obtain r w1 where f: "f t w = (r, w1)" by (cases "f t w")
  obtain rs w2 where a: "attempts f ts w1 = (rs, w2)" by (cases "attempts f ts w1")
  have "calls w1 = calls w @ g t" using assms[of t w] f by simp
  moreover have "calls w2 = calls w1 @ concat (map g ts)" using Cons[of w1] a by simp
  ultimately show ?case using f a by simp
qed

lemma attempts_length: "length (fst (attempts f ts w)) = length ts"
proof (induction ts arbitrary: w)
  case Nil
  show ?case by simp
next
  case (Cons t ts)
  obtain r w1 where f: "f t w = (r, w1)" by (cases "f t w")
  obtain rs w2 where a: "attempts f ts w1 = (rs, w2)" by (cases "attempts f ts w1")
  from Cons[of w1] a have "length rs = length ts" by simp
  with f a show ?case by simp
qed

lemma attempts_store:
  assumes "\<And>t w. store (snd (f t w)) = g t (store w)"
  shows "store (snd (attempts f ts w)) = fold g ts (store w)"
proof (induction ts arbitrary: w)
  case Nil
  show ?case by simp
next
  case (Cons t ts)
  obtain r w1 where f: "f t w = (r, w1)" by (cases "f t w")
  obtain rs w2 where a: "attempts f ts w1 = (rs, w2)" by (cases "attempts f ts w1")
  have "store w1 = g t (store w)" using assms[of t w] f by simp
  moreover have "store w2 = fold g ts (store w1)" using Cons[of w1] a by simp
  ultimately show ?case using f a by simp
qed

lemma attempts_unchanged:
  assumes "\<And>t w. snd (f t w) = w"
  shows "snd (attempts f ts w) = w"
proof (induction ts arbitrary: w)
  case Nil
  show ?case by simp
next
  case (Cons t ts)
  obtain r w1 where f: "f t w = (r, w1)" by (cases "f t w")
  obtain rs w2 where a: "attempts f ts w1 = (rs, w2)" by (cases "attempts f ts w1")
  have "w1 = w" using assms[of t w] f by simp
  moreover have "w2 = w1" using Cons[of w1] a by simp
  ultimately show ?case using f a by simp
qed

lemma addLocalRoute_standard_calls:
  "Type hop = STANDARD \<Longrightarrow>
   calls (snd (addLocalRoute c dv t dest hop w)) =
     calls w @ (if IPv4Only (config c) \<and> IPVersion dest \<noteq> IPV4 then []
                else [CreateRoute t (Prefix dest) dv (TargetAddress hop)])"
  by (simp add: addLocalRoute_def snd_wrap dpdk_do_calls)

lemma removeLocalRoute_standard_calls:
  "Type hop = STANDARD \<Longrightarrow>
   calls (snd (removeLocalRoute c dv t dest hop w)) =
     calls w @ (if IPv4Only (config c) \<and> IPVersion dest \<noteq> IPV4 then []
                else [DeleteRoute t (Prefix dest)])"
  by (simp add: removeLocalRoute_def snd_wrap dpdk_do_calls)

section \<open>Unfolding the examples\<close>

lemmas example_defs =
  example_client_def example_cache_def example_errs_def empty_world_def standardHop_def
  dest_10_0_0_5_def dest_192_168_1_1_def prefix_10_0_0_5_def prefix_192_168_1_1_def
  prefix_10_0_0_9_def dest_10_0_0_9_def lbHop_def otherStandardHop_def preferred_client_def
  faulty_client_def is_create_in_200_def underlay_1_def underlay_2_def

lemmas run_defs =
  addLocalRoute_def removeLocalRoute_def dpdk_do_def rpc_def wrap_def aggregate_def faulty_dp_def

lemmas cleanup_defs =
  is_delete_of_def prefix_net_def route_via_def cleanup_cache_def cleanup_client_def
  unpeered_cache_def unpeered_client_def stuck_client_def installed_world_def stale_world_def


lemmas stub_defs =
  example_lib_def silent_stub_def dual_stack_stub_def example_route_def


section \<open>Fan-out on add\<close>

text \<open>
  C1. For a Standard next-hop, \<open>AddRoute\<close> is the sequence of single-network realizations
  into \<open>vni\<close> itself and then into exactly those peers of \<open>vni\<close> that have no allow-list
  (none known at all, or none for this peer) or whose allow-list has a prefix containing
  the destination address. The dataplane receives one \<open>CreateRoute\<close> per such network,
  with the originating VNI as next-hop VNI, and no other call (none at all when the
  IPv4-only guard of the realization rejects the destination).
\<close>

theorem AddRoute_fanout:
  assumes "Type hop = STANDARD"
  shows "AddRoute c v dest hop w =
           (case attempts (\<lambda>t. addLocalRoute c v t dest hop)
                   (v # filter (\<lambda>peer.
                          case (if snd (GetPeeredPrefixes (metalnetCache c) v)
                                then fst (GetPeeredPrefixes (metalnetCache c) v) peer else None) of
                            None \<Rightarrow> True
                          | Some ps \<Rightarrow> \<exists>p\<in>set ps. Contains p (Addr (Prefix dest)))
                        (fst (GetPeerVnis (metalnetCache c) v))) w of
              (rs, w') \<Rightarrow> (aggregate rs, w'))
         \<and> calls (snd (AddRoute c v dest hop w)) =
             calls w @
             (if IPv4Only (config c) \<and> IPVersion dest \<noteq> IPV4 then []
              else map (\<lambda>t. CreateRoute t (Prefix dest) v (TargetAddress hop))
                     (v # filter (\<lambda>peer.
                            case (if snd (GetPeeredPrefixes (metalnetCache c) v)
                                  then fst (GetPeeredPrefixes (metalnetCache c) v) peer else None) of
                              None \<Rightarrow> True
                            | Some ps \<Rightarrow> \<exists>p\<in>set ps. Contains p (Addr (Prefix dest)))
                          (fst (GetPeerVnis (metalnetCache c) v))))"
proof -
  let ?el = "\<lambda>peer. case (if snd (GetPeeredPrefixes (metalnetCache c) v)
                                then fst (GetPeeredPrefixes (metalnetCache c) v) peer else None) of
                            None \<Rightarrow> True
                          | Some ps \<Rightarrow> \<exists>p\<in>set ps. Contains p (Addr (Prefix dest))"
  let ?ts = "v # filter ?el (fst (GetPeerVnis (metalnetCache c) v))"
  have el: "(\<lambda>p. addRouteFlag (GetPeeredPrefixes (metalnetCache c) v) p dest) = ?el"
    by (rule ext) (rule addRouteFlag_iff)
  have run: "AddRoute c v dest hop w =
      (case attempts (\<lambda>t. addLocalRoute c v t dest hop) ?ts w of (rs, w') \<Rightarrow> (aggregate rs, w'))"
    unfolding AddRoute_attempts el using assms by simp
  have "calls (snd (attempts (\<lambda>t. addLocalRoute c v t dest hop) ?ts w)) =
        calls w @ concat (map (\<lambda>t. if IPv4Only (config c) \<and> IPVersion dest \<noteq> IPV4 then []
                else [CreateRoute t (Prefix dest) v (TargetAddress hop)]) ?ts)"
    by (rule attempts_calls) (rule addLocalRoute_standard_calls[OF assms])
  moreover have "snd (AddRoute c v dest hop w) =
      snd (attempts (\<lambda>t. addLocalRoute c v t dest hop) ?ts w)"
    unfolding run by (rule snd_collect)
  ultimately have "calls (snd (AddRoute c v dest hop w)) =
        calls w @ (if IPv4Only (config c) \<and> IPVersion dest \<noteq> IPV4 then []
              else map (\<lambda>t. CreateRoute t (Prefix dest) v (TargetAddress hop)) ?ts)"
    by (simp only: concat_map_if)
  with run show ?thesis by blast
qed

text \<open>
  The specification's example: 10.0.0.5/32 is installed into VNI 100, 200 and 300;
  192.168.1.1/32 into VNI 100 and 200 only.
\<close>

theorem AddRoute_fanout_witness:
  "calls (snd (AddRoute example_client 100 dest_10_0_0_5 standardHop empty_world)) =
     [CreateRoute 100 prefix_10_0_0_5 100 underlay_1,
      CreateRoute 200 prefix_10_0_0_5 100 underlay_1,
      CreateRoute 300 prefix_10_0_0_5 100 underlay_1]
   \<and> calls (snd (AddRoute example_client 100 dest_192_168_1_1 standardHop empty_world)) =
     [CreateRoute 100 prefix_192_168_1_1 100 underlay_1,
      CreateRoute 200 prefix_192_168_1_1 100 underlay_1]"
proof -
  have h: "Type standardHop = STANDARD" by (simp add: standardHop_def)
  note a = AddRoute_fanout[OF h, of example_client 100 dest_10_0_0_5 empty_world, THEN conjunct2]
  note b = AddRoute_fanout[OF h, of example_client 100 dest_192_168_1_1 empty_world, THEN conjunct2]
  show ?thesis
    unfolding a b
    by (simp add: example_client_def example_cache_def empty_world_def standardHop_def
          dest_10_0_0_5_def dest_192_168_1_1_def prefix_10_0_0_5_def prefix_192_168_1_1_def)
qed

section \<open>Fan-out on remove\<close>

text \<open>
  C3. For a Standard next-hop, \<open>RemoveRoute\<close> is the sequence of single-network removals
  from \<open>vni\<close> and then from every current peer of \<open>vni\<close>, with no look at the allow-lists:
  the dataplane receives one \<open>DeleteRoute\<close> per such network (none when the IPv4-only guard
  rejects the destination). For a load-balancer-target or NAT next-hop, \<open>RemoveRoute\<close> and
  \<open>AddRoute\<close> are the single local realization and nothing else.
\<close>

theorem RemoveRoute_fanout:
  "(Type hop = STANDARD \<longrightarrow>
      RemoveRoute c v dest hop w =
        (case attempts (\<lambda>t. removeLocalRoute c v t dest hop)
                (v # fst (GetPeerVnis (metalnetCache c) v)) w of
           (rs, w') \<Rightarrow> (aggregate rs, w'))
      \<and> calls (snd (RemoveRoute c v dest hop w)) =
          calls w @
          (if IPv4Only (config c) \<and> IPVersion dest \<noteq> IPV4 then []
           else map (\<lambda>t. DeleteRoute t (Prefix dest)) (v # fst (GetPeerVnis (metalnetCache c) v))))
   \<and> (Type hop \<noteq> STANDARD \<longrightarrow>
      RemoveRoute c v dest hop w =
        (case removeLocalRoute c v v dest hop w of (r, w') \<Rightarrow> (aggregate [r], w'))
      \<and> AddRoute c v dest hop w =
        (case addLocalRoute c v v dest hop w of (r, w') \<Rightarrow> (aggregate [r], w')))"
proof (intro conjI impI)
  assume std: "Type hop = STANDARD"
  let ?ts = "v # fst (GetPeerVnis (metalnetCache c) v)"
  show run: "RemoveRoute c v dest hop w =
      (case attempts (\<lambda>t. removeLocalRoute c v t dest hop) ?ts w of (rs, w') \<Rightarrow> (aggregate rs, w'))"
    unfolding RemoveRoute_attempts using std by simp
  have "calls (snd (attempts (\<lambda>t. removeLocalRoute c v t dest hop) ?ts w)) =
        calls w @ concat (map (\<lambda>t. if IPv4Only (config c) \<and> IPVersion dest \<noteq> IPV4 then []
                else [DeleteRoute t (Prefix dest)]) ?ts)"
    by (rule attempts_calls) (rule removeLocalRoute_standard_calls[OF std])
  moreover have "snd (RemoveRoute c v dest hop w) =
      snd (attempts (\<lambda>t. removeLocalRoute c v t dest hop) ?ts w)"
    unfolding run by (rule snd_collect)
  ultimately show "calls (snd (RemoveRoute c v dest hop w)) =
        calls w @ (if IPv4Only (config c) \<and> IPVersion dest \<noteq> IPV4 then []
              else map (\<lambda>t. DeleteRoute t (Prefix dest)) ?ts)"
    by (simp only: concat_map_if)
next
  assume "Type hop \<noteq> STANDARD"
  then show "RemoveRoute c v dest hop w =
        (case removeLocalRoute c v v dest hop w of (r, w') \<Rightarrow> (aggregate [r], w'))"
    unfolding RemoveRoute_attempts by (simp split: prod.splits)
next
  assume "Type hop \<noteq> STANDARD"
  then show "AddRoute c v dest hop w =
        (case addLocalRoute c v v dest hop w of (r, w') \<Rightarrow> (aggregate [r], w'))"
    unfolding AddRoute_attempts by (simp split: prod.splits)
qed

text \<open>
  The specification's example: the removal of 192.168.1.1/32 reaches VNI 100 and both
  peers, also VNI 300 whose allow-list does not contain it; a load-balancer-target route
  is removed and added in VNI 100 only.
\<close>

theorem RemoveRoute_fanout_witness:
  "calls (snd (RemoveRoute example_client 100 dest_192_168_1_1 standardHop empty_world)) =
     [DeleteRoute 100 prefix_192_168_1_1, DeleteRoute 200 prefix_192_168_1_1,
      DeleteRoute 300 prefix_192_168_1_1]
   \<and> calls (snd (RemoveRoute example_client 100 dest_10_0_0_9 lbHop empty_world)) =
     [DeleteLoadBalancerTarget ''lb-1'' underlay_2]
   \<and> calls (snd (AddRoute example_client 100 dest_10_0_0_9 lbHop empty_world)) =
     [CreateLoadBalancerTarget ''lb-1'' underlay_2]"
proof -
  have s: "Type standardHop = STANDARD" by (simp add: standardHop_def)
  have l: "Type lbHop \<noteq> STANDARD" by (simp add: lbHop_def)
  note a = RemoveRoute_fanout[of standardHop example_client 100 dest_192_168_1_1 empty_world,
      THEN conjunct1, rule_format, OF s, THEN conjunct2]
  note b = RemoveRoute_fanout[of lbHop example_client 100 dest_10_0_0_9 empty_world,
      THEN conjunct2, rule_format, OF l, THEN conjunct1]
  note c = RemoveRoute_fanout[of lbHop example_client 100 dest_10_0_0_9 empty_world,
      THEN conjunct2, rule_format, OF l, THEN conjunct2]
  show ?thesis
    unfolding a b c by (simp add: example_defs run_defs)
qed

section \<open>Aggregation of errors\<close>

text \<open>
  C5. \<open>AddRoute\<close> and \<open>RemoveRoute\<close> run every per-network attempt (the local one and each
  eligible peer), whatever the earlier attempts returned; the result is no error when no
  attempt failed, and otherwise the one error joining the failures of all failed attempts,
  in order.
\<close>

theorem fanout_collects_all_errors:
  "AddRoute c v dest hop w =
     (case attempts (\<lambda>t. addLocalRoute c v t dest hop)
             (v # (if Type hop = STANDARD
                   then filter (\<lambda>p. addRouteFlag (GetPeeredPrefixes (metalnetCache c) v) p dest)
                          (fst (GetPeerVnis (metalnetCache c) v))
                   else [])) w of
        (rs, w') \<Rightarrow> (if failures rs = [] then None else Some (Joined (failures rs)), w'))
   \<and> RemoveRoute c v dest hop w =
     (case attempts (\<lambda>t. removeLocalRoute c v t dest hop)
             (v # (if Type hop = STANDARD then fst (GetPeerVnis (metalnetCache c) v) else [])) w of
        (rs, w') \<Rightarrow> (if failures rs = [] then None else Some (Joined (failures rs)), w'))"
  unfolding AddRoute_attempts RemoveRoute_attempts aggregate_def
  by (simp split: prod.splits)

text \<open>
  Partial failure: the dataplane fails the creation in VNI 200; the routes in VNI 100 and
  VNI 300 are installed all the same, and the call returns the joined error.
\<close>

theorem fanout_collects_all_errors_witness:
  "AddRoute faulty_client 100 dest_10_0_0_5 standardHop empty_world =
     (Some (Joined [Wrapped ''error creating route'' (RpcError ''unavailable'')]),
      \<lparr>store =
         [\<lparr>route_VNI = 100, route_Prefix = prefix_10_0_0_5, route_NextHop_VNI = 100,
           route_NextHop_IP = underlay_1\<rparr>,
          \<lparr>route_VNI = 300, route_Prefix = prefix_10_0_0_5, route_NextHop_VNI = 100,
           route_NextHop_IP = underlay_1\<rparr>],
       calls =
         [CreateRoute 100 prefix_10_0_0_5 100 underlay_1,
          CreateRoute 200 prefix_10_0_0_5 100 underlay_1,
          CreateRoute 300 prefix_10_0_0_5 100 underlay_1]\<rparr>)"
  unfolding fanout_collects_all_errors[of faulty_client 100 dest_10_0_0_5 standardHop empty_world,
      THEN conjunct1]
  by (simp add: example_defs run_defs addRouteFlag_def)

section \<open>The preferred-network filter\<close>




section \<open>Cleanup of routes that are no longer peered\<close>

lemma cleanupLoop_append:
  "cleanupLoop c v peers (xs @ ys) w =
     (case cleanupLoop c v peers xs w of
        (None, w1) \<Rightarrow> cleanupLoop c v peers ys w1
      | (Some e, w1) \<Rightarrow> (Some e, w1))"
  by (induction xs arbitrary: w) (auto split: prod.splits option.splits)

lemma cleanupLoop_all_ignored:
  assumes "\<And>p s. GetError [NO_VNI (errs c), ROUTE_NOT_FOUND (errs c)]
                    (fst (dpdk c (DeleteRoute v p) s)) = None"
  shows "fst (cleanupLoop c v peers routes w) = None
         \<and> calls (snd (cleanupLoop c v peers routes w)) =
             calls w @ map (\<lambda>r. DeleteRoute v (route_Prefix r))
               (filter (\<lambda>r. route_NextHop_VNI r \<noteq> v \<and> snd peers
                            \<and> route_NextHop_VNI r \<notin> set (fst peers)) routes)"
proof (induction routes arbitrary: w)
  case Nil
  show ?case by simp
next
  case (Cons r routes)
  show ?case
  proof (cases "route_NextHop_VNI r \<noteq> v \<and> snd peers \<and> route_NextHop_VNI r \<notin> set (fst peers)")
    case False
    then show ?thesis using Cons[of w] by auto
  next
    case True
    obtain e w' where d: "dpdk_do (dpdk c) (DeleteRoute v (route_Prefix r))
        [NO_VNI (errs c), ROUTE_NOT_FOUND (errs c)] w = (e, w')"
      by (cases "dpdk_do (dpdk c) (DeleteRoute v (route_Prefix r))
        [NO_VNI (errs c), ROUTE_NOT_FOUND (errs c)] w")
    have "e = None"
      using fst_dpdk_do[of "dpdk c" "DeleteRoute v (route_Prefix r)"
          "[NO_VNI (errs c), ROUTE_NOT_FOUND (errs c)]" w] d assms by simp
    moreover have "calls w' = calls w @ [DeleteRoute v (route_Prefix r)]"
      using dpdk_do_calls[of "dpdk c" "DeleteRoute v (route_Prefix r)"
          "[NO_VNI (errs c), ROUTE_NOT_FOUND (errs c)]" w] d by simp
    ultimately show ?thesis using True d Cons[of w'] by simp
  qed
qed

text \<open>
  C2 does not hold where the peer set is absent: every installed route has a
  next-hop VNI other than 100, and none is deleted.
\<close>

theorem cleanup_unpeered_counterexample:
  "GetPeerVnis (metalnetCache unpeered_client) 100 = ([], False)
   \<and> list_all (\<lambda>r. route_VNI r = 100 \<and> route_NextHop_VNI r \<noteq> 100) (store stale_world)
   \<and> CleanupNotPeeredRoutes unpeered_client 100 stale_world =
       (None, \<lparr>store = store stale_world, calls = [ListRoutes 100]\<rparr>)"
  by (simp add: CleanupNotPeeredRoutes_def dpdk_ListRoutes_def example_defs cleanup_defs run_defs)

text \<open>
  C2, amended. When the listing succeeds and no deletion fails with an error that is not
  ignored (\<open>NO_VNI\<close> and \<open>ROUTE_NOT_FOUND\<close> are ignored), \<open>CleanupNotPeeredRoutes\<close> succeeds
  and issues, after the listing, one \<open>DeleteRoute\<close> (VNI and prefix) for exactly the listed
  routes whose next-hop VNI differs from \<open>vni\<close> and is not in the peer set, provided the
  peer set is present; when the peer set is absent it deletes nothing.
\<close>

theorem cleanup_deletes_unpeered:
  assumes "dpdk c (ListRoutes v) (store w) = (Response 0 m routes, s0)"
    and "\<And>p s. GetError [NO_VNI (errs c), ROUTE_NOT_FOUND (errs c)]
                    (fst (dpdk c (DeleteRoute v p) s)) = None"
  shows "fst (CleanupNotPeeredRoutes c v w) = None
         \<and> calls (snd (CleanupNotPeeredRoutes c v w)) =
             calls w @ ListRoutes v #
             map (\<lambda>r. DeleteRoute v (route_Prefix r))
               (filter (\<lambda>r. route_NextHop_VNI r \<noteq> v
                            \<and> snd (GetPeerVnis (metalnetCache c) v)
                            \<and> route_NextHop_VNI r \<notin> set (fst (GetPeerVnis (metalnetCache c) v)))
                  routes)"
proof -
  have l: "dpdk_ListRoutes (dpdk c) v w = (Inr routes, \<lparr>store = s0, calls = calls w @ [ListRoutes v]\<rparr>)"
    using assms(1) by (simp add: dpdk_ListRoutes_def rpc_def)
  show ?thesis
    using cleanupLoop_all_ignored[OF assms(2), of "GetPeerVnis (metalnetCache c) v" routes
        "\<lparr>store = s0, calls = calls w @ [ListRoutes v]\<rparr>"]
    by (simp add: CleanupNotPeeredRoutes_def l)
qed

text \<open>
  The specification's example: next-hop VNIs 100, 200 and 400 with the peer set {200};
  exactly the route via VNI 400 is deleted.
\<close>

theorem cleanup_deletes_unpeered_witness:
  "fst (CleanupNotPeeredRoutes cleanup_client 100 installed_world) = None
   \<and> calls (snd (CleanupNotPeeredRoutes cleanup_client 100 installed_world)) =
       [ListRoutes 100, DeleteRoute 100 (prefix_net 0x0A000400)]
   \<and> store (snd (CleanupNotPeeredRoutes cleanup_client 100 installed_world)) =
       [route_via 0x0A000100 100, route_via 0x0A000200 200]"
proof -
  have 1: "dpdk cleanup_client (ListRoutes 100) (store installed_world) =
             (Response 0 [] (store installed_world), store installed_world)"
    by (simp add: example_defs cleanup_defs)
  have 2: "\<And>p s. GetError [NO_VNI (errs cleanup_client), ROUTE_NOT_FOUND (errs cleanup_client)]
                    (fst (dpdk cleanup_client (DeleteRoute 100 p) s)) = None"
    by (simp add: example_defs cleanup_defs)
  have 3: "store (snd (CleanupNotPeeredRoutes cleanup_client 100 installed_world)) =
       [route_via 0x0A000100 100, route_via 0x0A000200 200]"
    by (simp add: CleanupNotPeeredRoutes_def dpdk_ListRoutes_def example_defs cleanup_defs run_defs)
  from cleanup_deletes_unpeered[OF 1 2] 3 show ?thesis
    by (simp add: example_defs cleanup_defs)
qed

text \<open>
  C10. When the listing is \<open>pre @ r # post\<close>, the routes of \<open>pre\<close> are handled without
  error, \<open>r\<close> is due for deletion and its deletion fails with an error that is not ignored,
  \<open>CleanupNotPeeredRoutes\<close> returns that one error (wrapped) at once: the world it returns
  is the one right after the failed call, whatever \<open>post\<close> holds, so no later route is
  examined or deleted, and the deletions made for \<open>pre\<close> stay in effect.
\<close>

theorem cleanup_stops_at_first_failure:
  assumes "dpdk_ListRoutes (dpdk c) v w = (Inr (pre @ r # post), w0)"
    and "cleanupLoop c v (GetPeerVnis (metalnetCache c) v) pre w0 = (None, w1)"
    and "route_NextHop_VNI r \<noteq> v"
    and "snd (GetPeerVnis (metalnetCache c) v)"
    and "route_NextHop_VNI r \<notin> set (fst (GetPeerVnis (metalnetCache c) v))"
    and "dpdk_do (dpdk c) (DeleteRoute v (route_Prefix r))
           [NO_VNI (errs c), ROUTE_NOT_FOUND (errs c)] w1 = (Some e, w2)"
  shows "CleanupNotPeeredRoutes c v w = (Some (Wrapped ''error deleting route'' e), w2)
         \<and> calls w2 = calls w1 @ [DeleteRoute v (route_Prefix r)]
         \<and> store w2 = snd (dpdk c (DeleteRoute v (route_Prefix r)) (store w1))"
proof -
  have "cleanupLoop c v (GetPeerVnis (metalnetCache c) v) (r # post) w1 =
          (Some (Wrapped ''error deleting route'' e), w2)"
    using assms(3-6) by simp
  then have "cleanupLoop c v (GetPeerVnis (metalnetCache c) v) (pre @ r # post) w0 =
          (Some (Wrapped ''error deleting route'' e), w2)"
    using assms(2) by (simp add: cleanupLoop_append)
  then have "CleanupNotPeeredRoutes c v w = (Some (Wrapped ''error deleting route'' e), w2)"
    using assms(1) by (simp add: CleanupNotPeeredRoutes_def)
  moreover have "calls w2 = calls w1 @ [DeleteRoute v (route_Prefix r)]"
    using dpdk_do_calls[of "dpdk c" "DeleteRoute v (route_Prefix r)"
        "[NO_VNI (errs c), ROUTE_NOT_FOUND (errs c)]" w1] assms(6) by simp
  moreover have "store w2 = snd (dpdk c (DeleteRoute v (route_Prefix r)) (store w1))"
    using dpdk_do_store[of "dpdk c" "DeleteRoute v (route_Prefix r)"
        "[NO_VNI (errs c), ROUTE_NOT_FOUND (errs c)]" w1] assms(6) by simp
  ultimately show ?thesis by simp
qed

text \<open>
  Three stale routes, the deletion of the second fails: the first is gone, the third is
  still installed, and no call is issued for it.
\<close>

theorem cleanup_stops_at_first_failure_witness:
  "CleanupNotPeeredRoutes stuck_client 100 stale_world =
     (Some (Wrapped ''error deleting route'' (RpcError ''unavailable'')),
      \<lparr>store = [route_via 0x0A000200 500, route_via 0x0A000400 600],
       calls = [ListRoutes 100, DeleteRoute 100 (prefix_net 0x0A000100),
                DeleteRoute 100 (prefix_net 0x0A000200)]\<rparr>)"
proof -
  let ?w0 = "\<lparr>store = store stale_world, calls = [ListRoutes 100]\<rparr>"
  let ?w1 = "\<lparr>store = [route_via 0x0A000200 500, route_via 0x0A000400 600],
             calls = [ListRoutes 100, DeleteRoute 100 (prefix_net 0x0A000100)]\<rparr>"
  let ?w2 = "\<lparr>store = [route_via 0x0A000200 500, route_via 0x0A000400 600],
             calls = [ListRoutes 100, DeleteRoute 100 (prefix_net 0x0A000100),
                DeleteRoute 100 (prefix_net 0x0A000200)]\<rparr>"
  have 1: "dpdk_ListRoutes (dpdk stuck_client) 100 stale_world =
             (Inr ([route_via 0x0A000100 400] @ route_via 0x0A000200 500 # [route_via 0x0A000400 600]), ?w0)"
    by (simp add: dpdk_ListRoutes_def example_defs cleanup_defs run_defs)
  have 2: "cleanupLoop stuck_client 100 (GetPeerVnis (metalnetCache stuck_client) 100)
             [route_via 0x0A000100 400] ?w0 = (None, ?w1)"
    by (simp add: example_defs cleanup_defs run_defs)
  have 3: "route_NextHop_VNI (route_via 0x0A000200 500) \<noteq> 100"
    by (simp add: cleanup_defs)
  have 4: "snd (GetPeerVnis (metalnetCache stuck_client) 100)"
    by (simp add: example_defs cleanup_defs)
  have 5: "route_NextHop_VNI (route_via 0x0A000200 500) \<notin> set (fst (GetPeerVnis (metalnetCache stuck_client) 100))"
    by (simp add: example_defs cleanup_defs)
  have 6: "dpdk_do (dpdk stuck_client) (DeleteRoute 100 (route_Prefix (route_via 0x0A000200 500)))
             [NO_VNI (errs stuck_client), ROUTE_NOT_FOUND (errs stuck_client)] ?w1 =
             (Some (RpcError ''unavailable''), ?w2)"
    by (simp add: example_defs cleanup_defs run_defs)
  from cleanup_stops_at_first_failure[OF 1 2 3 4 5 6] show ?thesis by simp
qed

section \<open>Add followed by remove\<close>

lemma table_create_store:
  "snd (table_dp E (CreateRoute v p nv na) t) =
     (if \<exists>r\<in>set t. route_VNI r = v \<and> route_Prefix r = p then t
      else t @ [\<lparr>route_VNI = v, route_Prefix = p, route_NextHop_VNI = nv, route_NextHop_IP = na\<rparr>])"
  by simp

lemma table_delete_store:
  "snd (table_dp E (DeleteRoute v p) t) = filter (\<lambda>r. \<not> (route_VNI r = v \<and> route_Prefix r = p)) t"
proof (cases "\<exists>r\<in>set t. route_VNI r = v \<and> route_Prefix r = p")
  case True
  then show ?thesis by simp
next
  case False
  then have "filter (\<lambda>r. \<not> (route_VNI r = v \<and> route_Prefix r = p)) t = t"
    by (simp add: filter_id_conv)
  with False show ?thesis by simp
qed

lemma fold_create:
  "\<exists>ns. fold (\<lambda>t s. snd (table_dp E (CreateRoute t p nv na) s)) ts s = s @ ns
        \<and> (\<forall>r\<in>set ns. route_Prefix r = p \<and> route_VNI r \<in> set ts)"
proof (induction ts arbitrary: s)
  case Nil
  show ?case by simp
next
  case (Cons t ts)
  let ?s1 = "snd (table_dp E (CreateRoute t p nv na) s)"
  obtain n1 where n1: "?s1 = s @ n1" "\<forall>r\<in>set n1. route_Prefix r = p \<and> route_VNI r = t"
  proof (cases "\<exists>r\<in>set s. route_VNI r = t \<and> route_Prefix r = p")
    case True
    then have "?s1 = s @ []" by simp
    then show ?thesis using that[of "[]"] by simp
  next
    case False
    then have "?s1 = s @ [\<lparr>route_VNI = t, route_Prefix = p, route_NextHop_VNI = nv, route_NextHop_IP = na\<rparr>]"
      by simp
    then show ?thesis using that by simp
  qed
  from Cons[of ?s1] obtain ns where
    ns: "fold (\<lambda>t s. snd (table_dp E (CreateRoute t p nv na) s)) ts ?s1 = ?s1 @ ns"
        "\<forall>r\<in>set ns. route_Prefix r = p \<and> route_VNI r \<in> set ts"
    by blast
  have "fold (\<lambda>t s. snd (table_dp E (CreateRoute t p nv na) s)) (t # ts) s = s @ (n1 @ ns)"
    using n1(1) ns(1) by simp
  moreover have "\<forall>r\<in>set (n1 @ ns). route_Prefix r = p \<and> route_VNI r \<in> set (t # ts)"
    using n1(2) ns(2) by auto
  ultimately show ?case by blast
qed

lemma fold_delete:
  "fold (\<lambda>t s. snd (table_dp E (DeleteRoute t p) s)) ts s =
     filter (\<lambda>r. \<not> (route_Prefix r = p \<and> route_VNI r \<in> set ts)) s"
proof (induction ts arbitrary: s)
  case Nil
  show ?case by simp
next
  case (Cons t ts)
  have "fold (\<lambda>t s. snd (table_dp E (DeleteRoute t p) s)) (t # ts) s =
        filter (\<lambda>r. \<not> (route_Prefix r = p \<and> route_VNI r \<in> set ts))
          (filter (\<lambda>r. \<not> (route_VNI r = t \<and> route_Prefix r = p)) s)"
    using Cons[of "snd (table_dp E (DeleteRoute t p) s)"] by (simp only: fold_simps table_delete_store)
  also have "\<dots> = filter (\<lambda>r. \<not> (route_Prefix r = p \<and> route_VNI r \<in> set (t # ts))) s"
    by (auto intro: filter_cong)
  finally show ?case .
qed

lemma addLocalRoute_standard_store:
  assumes "Type hop = STANDARD" and "dpdk c = table_dp E"
    and "\<not> (IPv4Only (config c) \<and> IPVersion dest \<noteq> IPV4)"
  shows "store (snd (addLocalRoute c dv t dest hop w)) =
           snd (table_dp E (CreateRoute t (Prefix dest) dv (TargetAddress hop)) (store w))"
  using assms by (auto simp add: addLocalRoute_def snd_wrap dpdk_do_store simp del: table_dp.simps)

lemma removeLocalRoute_standard_store:
  assumes "Type hop = STANDARD" and "dpdk c = table_dp E"
    and "\<not> (IPv4Only (config c) \<and> IPVersion dest \<noteq> IPV4)"
  shows "store (snd (removeLocalRoute c dv t dest hop w)) =
           snd (table_dp E (DeleteRoute t (Prefix dest)) (store w))"
  using assms by (auto simp add: removeLocalRoute_def snd_wrap dpdk_do_store simp del: table_dp.simps)

lemma rejected_add: "IPv4Only (config c) \<and> IPVersion dest \<noteq> IPV4 \<Longrightarrow> snd (addLocalRoute c dv t dest hop w) = w"
  by (simp add: addLocalRoute_def)

lemma rejected_remove: "IPv4Only (config c) \<and> IPVersion dest \<noteq> IPV4 \<Longrightarrow> snd (removeLocalRoute c dv t dest hop w) = w"
  by (simp add: removeLocalRoute_def)

text \<open>
  C6 does not hold when the route is installed already: \<open>AddRoute\<close> absorbs
  \<open>ROUTE_EXISTS\<close>, \<open>RemoveRoute\<close> deletes the route, both succeed, and the route set of
  VNI 100 has lost a route it held before.
\<close>

theorem add_then_remove_counterexample:
  "Type standardHop = STANDARD
   \<and> fst (AddRoute example_client 100 dest_10_0_0_5 standardHop preinstalled_world) = None
   \<and> fst (RemoveRoute example_client 100 dest_10_0_0_5 standardHop
            (snd (AddRoute example_client 100 dest_10_0_0_5 standardHop preinstalled_world))) = None
   \<and> filter (\<lambda>r. route_VNI r = 100) (store preinstalled_world) =
       [\<lparr>route_VNI = 100, route_Prefix = prefix_10_0_0_5, route_NextHop_VNI = 100,
         route_NextHop_IP = underlay_1\<rparr>]
   \<and> filter (\<lambda>r. route_VNI r = 100)
        (store (snd (RemoveRoute example_client 100 dest_10_0_0_5 standardHop
            (snd (AddRoute example_client 100 dest_10_0_0_5 standardHop preinstalled_world))))) = []"
  by (simp add: AddRoute_attempts RemoveRoute_attempts addRouteFlag_def preinstalled_world_def
        example_defs run_defs)

text \<open>
  C6, amended. On the reference dataplane (one route per VNI and prefix), for a Standard
  next-hop: if, before the \<open>AddRoute\<close>, no route for the destination prefix is installed
  in \<open>vni\<close> or in any current peer of \<open>vni\<close>, then \<open>AddRoute\<close> followed by \<open>RemoveRoute\<close>
  with the same arguments leaves the whole route table as it was.
\<close>

theorem add_then_remove_restores_table:
  assumes "Type hop = STANDARD"
    and "dpdk c = table_dp (errs c)"
    and "\<forall>r\<in>set (store w). route_Prefix r = Prefix dest \<longrightarrow>
           route_VNI r \<notin> set (v # fst (GetPeerVnis (metalnetCache c) v))"
  shows "store (snd (RemoveRoute c v dest hop (snd (AddRoute c v dest hop w)))) = store w"
proof (cases "IPv4Only (config c) \<and> IPVersion dest \<noteq> IPV4")
  case True
  have "snd (AddRoute c v dest hop w) = w"
    unfolding AddRoute_attempts snd_collect
    by (rule attempts_unchanged) (rule rejected_add[OF True])
  moreover have "snd (RemoveRoute c v dest hop w) = w"
    unfolding RemoveRoute_attempts snd_collect
    by (rule attempts_unchanged) (rule rejected_remove[OF True])
  ultimately show ?thesis by simp
next
  case False
  let ?peers = "fst (GetPeerVnis (metalnetCache c) v)"
  let ?ats = "v # filter (\<lambda>p. addRouteFlag (GetPeeredPrefixes (metalnetCache c) v) p dest) ?peers"
  let ?w1 = "snd (AddRoute c v dest hop w)"
  have ats: "v # (if Type hop = STANDARD
                  then filter (\<lambda>p. addRouteFlag (GetPeeredPrefixes (metalnetCache c) v) p dest) ?peers
                  else []) = ?ats"
    using assms(1) by simp
  have rts: "v # (if Type hop = STANDARD then ?peers else []) = v # ?peers"
    using assms(1) by simp
  have "store ?w1 =
      fold (\<lambda>t s. snd (table_dp (errs c) (CreateRoute t (Prefix dest) v (TargetAddress hop)) s))
        ?ats (store w)"
    unfolding AddRoute_attempts snd_collect ats
    by (rule attempts_store) (rule addLocalRoute_standard_store[OF assms(1,2) False])
  then obtain ns where ns: "store ?w1 = store w @ ns"
      "\<forall>r\<in>set ns. route_Prefix r = Prefix dest \<and> route_VNI r \<in> set ?ats"
    using fold_create[of "errs c" "Prefix dest" v "TargetAddress hop" ?ats "store w"] by auto
  have "store (snd (RemoveRoute c v dest hop ?w1)) =
      fold (\<lambda>t s. snd (table_dp (errs c) (DeleteRoute t (Prefix dest)) s)) (v # ?peers) (store ?w1)"
    unfolding RemoveRoute_attempts snd_collect rts
    by (rule attempts_store) (rule removeLocalRoute_standard_store[OF assms(1,2) False])
  also have "\<dots> = filter (\<lambda>r. \<not> (route_Prefix r = Prefix dest \<and> route_VNI r \<in> set (v # ?peers)))
                    (store w @ ns)"
    by (simp only: fold_delete ns(1))
  also have "\<dots> = store w"
  proof -
    have "filter (\<lambda>r. \<not> (route_Prefix r = Prefix dest \<and> route_VNI r \<in> set (v # ?peers))) (store w) = store w"
      using assms(3) by (simp add: filter_id_conv)
    moreover have "filter (\<lambda>r. \<not> (route_Prefix r = Prefix dest \<and> route_VNI r \<in> set (v # ?peers))) ns = []"
      using ns(2) by (auto simp: filter_empty_conv)
    ultimately show ?thesis by simp
  qed
  finally show ?thesis .
qed

text \<open>Three unrelated routes installed: the add installs three more, the remove takes them
  away again.\<close>

theorem add_then_remove_restores_table_witness:
  "store (snd (RemoveRoute example_client 100 dest_10_0_0_5 standardHop
            (snd (AddRoute example_client 100 dest_10_0_0_5 standardHop installed_world)))) =
     [route_via 0x0A000100 100, route_via 0x0A000200 200, route_via 0x0A000400 400]
   \<and> store (snd (AddRoute example_client 100 dest_10_0_0_5 standardHop installed_world)) =
     [route_via 0x0A000100 100, route_via 0x0A000200 200, route_via 0x0A000400 400,
      \<lparr>route_VNI = 100, route_Prefix = prefix_10_0_0_5, route_NextHop_VNI = 100,
        route_NextHop_IP = underlay_1\<rparr>,
      \<lparr>route_VNI = 200, route_Prefix = prefix_10_0_0_5, route_NextHop_VNI = 100,
        route_NextHop_IP = underlay_1\<rparr>,
      \<lparr>route_VNI = 300, route_Prefix = prefix_10_0_0_5, route_NextHop_VNI = 100,
        route_NextHop_IP = underlay_1\<rparr>]"
proof -
  have 1: "Type standardHop = STANDARD" by (simp add: standardHop_def)
  have 2: "dpdk example_client = table_dp (errs example_client)" by (simp add: example_client_def)
  have 3: "\<forall>r\<in>set (store installed_world). route_Prefix r = Prefix dest_10_0_0_5 \<longrightarrow>
           route_VNI r \<notin> set (100 # fst (GetPeerVnis (metalnetCache example_client) 100))"
    by (simp add: example_defs cleanup_defs)
  have 4: "store (snd (AddRoute example_client 100 dest_10_0_0_5 standardHop installed_world)) =
     [route_via 0x0A000100 100, route_via 0x0A000200 200, route_via 0x0A000400 400,
      \<lparr>route_VNI = 100, route_Prefix = prefix_10_0_0_5, route_NextHop_VNI = 100,
        route_NextHop_IP = underlay_1\<rparr>,
      \<lparr>route_VNI = 200, route_Prefix = prefix_10_0_0_5, route_NextHop_VNI = 100,
        route_NextHop_IP = underlay_1\<rparr>,
      \<lparr>route_VNI = 300, route_Prefix = prefix_10_0_0_5, route_NextHop_VNI = 100,
        route_NextHop_IP = underlay_1\<rparr>]"
    by (simp add: AddRoute_attempts addRouteFlag_def example_defs cleanup_defs run_defs)
  from add_then_remove_restores_table[OF 1 2 3] 4 show ?thesis
    by (simp add: installed_world_def)
qed

section \<open>Status codes in the translation layer\<close>






section \<open>Parsed address fields in the translation layer\<close>

lemma dpdkInterfaceToInterface_never_reads_ipv6:
  "dpdkInterfaceToInterface L (dpdkIface\<lparr>pb_PrimaryIPv6Address := x\<rparr>) =
     dpdkInterfaceToInterface L dpdkIface"
  by (simp add: dpdkInterfaceToInterface_def split: sum.splits)

text \<open>
  C8 at the input where the code departs from it: the response holds the IPv4 address
  10.0.0.1 and the IPv6 address 2001:db8::1, and the interface \<open>GetInterface\<close> returns has
  10.0.0.1 as its primary IPv6 address.
\<close>

theorem GetInterface_ipv6_from_ipv4_field:
  "ParseAddr example_lib ''2001:db8::1'' = Some (IPv6 0x20010DB8000000000000000000000001)
   \<and> GetInterface example_lib dual_stack_stub ''if-1'' =
       Inr \<lparr>iface_UID = ''if-1'',
            iface_Spec =
              \<lparr>spec_VNI = 100, spec_Device = ''0000:01:00.0_representor_vf1'',
               spec_PrimaryIPv4Address = IPv4 0x0A000001,
               spec_PrimaryIPv6Address = IPv4 0x0A000001\<rparr>,
            iface_Status_UnderlayRoute = underlay_1\<rparr>"
  by (simp add: GetInterface_def dpdkInterfaceToInterface_def parse_def stub_defs)

section \<open>What a route deletion carries\<close>

text \<open>
  C9 does not hold: the withdrawals of two routes for the same destination
  with different next-hop VNIs and addresses issue the same delete request, which holds
  the VNI and the prefix only.
\<close>

theorem delete_ignores_next_hop_counterexample:
  "Type standardHop = STANDARD \<and> Type otherStandardHop = STANDARD
   \<and> TargetVNI standardHop \<noteq> TargetVNI otherStandardHop
   \<and> TargetAddress standardHop \<noteq> TargetAddress otherStandardHop
   \<and> calls (snd (removeLocalRoute example_client 100 100 dest_10_0_0_5 standardHop empty_world)) =
       [DeleteRoute 100 prefix_10_0_0_5]
   \<and> calls (snd (removeLocalRoute example_client 200 100 dest_10_0_0_5 otherStandardHop empty_world)) =
       [DeleteRoute 100 prefix_10_0_0_5]"
  by (simp add: example_defs run_defs)

text \<open>
  C9, amended. For a Standard next-hop, the delete call of \<open>removeLocalRoute\<close> holds the
  effective VNI and the destination prefix only, whatever the next-hop VNI and address of
  the withdrawn route. The translation layer's own \<open>DeleteRoute\<close>, given a route, does put
  the route's VNI, prefix, next-hop VNI and next-hop address into its request.
\<close>

theorem delete_request_fields:
  "(Type hop = STANDARD \<longrightarrow>
      calls (snd (removeLocalRoute c dv v dest hop w)) =
        calls w @ (if IPv4Only (config c) \<and> IPVersion dest \<noteq> IPV4 then []
                   else [DeleteRoute v (Prefix dest)]))
   \<and> DeleteRouteOp L stub route =
       (case rpc_DeleteRoute stub (routeMsg L route) of
          Inl err \<Rightarrow> Some (RpcError err)
        | Inr res \<Rightarrow> if status_Error res \<noteq> 0 then Some (statusError res) else None)
   \<and> rmsg_Vni (routeMsg L route) = Route_VNI route
   \<and> pfx_Address (rt_Prefix (rmsg_Route (routeMsg L route))) = Prefix_String L (Route_Spec_Prefix route)
   \<and> rt_NexthopVNI (rmsg_Route (routeMsg L route)) = Route_Spec_NextHop_VNI route
   \<and> rt_NexthopAddress (rmsg_Route (routeMsg L route)) =
       Addr_String L (Route_Spec_NextHop_Address route)"
  by (simp add: removeLocalRoute_standard_calls DeleteRouteOp_def routeMsg_def)

theorem delete_request_fields_witness:
  "calls (snd (removeLocalRoute example_client 200 100 dest_10_0_0_5 otherStandardHop empty_world)) =
     [DeleteRoute 100 prefix_10_0_0_5]
   \<and> DeleteRouteOp example_lib silent_stub example_route = Some (RpcError ''unavailable'')
   \<and> rt_NexthopVNI (rmsg_Route (routeMsg example_lib example_route)) = 200
   \<and> rt_NexthopAddress (rmsg_Route (routeMsg example_lib example_route)) = ''fd00::2''"
proof -
  have s: "Type otherStandardHop = STANDARD" by (simp add: otherStandardHop_def)
  note t = delete_request_fields[of otherStandardHop example_client 200 100 dest_10_0_0_5 empty_world
      example_lib silent_stub example_route]
  from t[THEN conjunct1, rule_format, OF s] t[THEN conjunct2]
  show ?thesis
    by (simp add: example_defs stub_defs)
qed

end
